theory Spec2Isabelle
  imports Complex_Main "HOL-Library.Sublist"
begin

section \<open>Values shared by the evaluation harness\<close>

text \<open>
  Exceptions of the Python code are values. \<open>UnboundLocalError\<close> is the read of a
  local variable that no executed statement has assigned, \<open>NameError\<close> the read of a
  name that is bound nowhere, \<open>IndexError\<close> an index beyond the end of a sequence,
  \<open>ValueError\<close> an argument that a library function refuses, \<open>ReError\<close> the error of
  the regular expression compiler, and \<open>Unmodelled\<close> marks a regular expression outside
  the fragment that \<open>str_contains\<close> below interprets.

  Two lines of validator.py do not parse as they stand: line 106 ends with a closing
  parenthesis that nothing opens, and line 232 starts at column 0 inside the body of
  \<open>leave_one_feat_out\<close>. Line 106 is read without that parenthesis and line 232 as
  indented like the lines 233 to 236 that follow it. The names \<open>train_test_split\<close>,
  \<open>RandomForestClassifier\<close>, \<open>RobustScaler\<close> and \<open>RandomOverSampler\<close>, which the
  module uses and does not import, stand for the library functions of these names.
\<close>

datatype py_error =
  UnboundLocalError | NameError | IndexError | ValueError | ReError | Unmodelled

text \<open>
  A NumPy float: a finite value, one of the two infinities, or NaN. Finite values are
  reals; the rounding of an arithmetic operation is a function \<open>rnd\<close> handed to the
  operation that rounds.
\<close>

datatype npfloat = Finite real | PosInf | NegInf | NaN

definition isnan :: "npfloat \<Rightarrow> bool" where
  "isnan x = (x = NaN)"

text \<open>\<open>x < c\<close> for a float \<open>x\<close> and a finite constant \<open>c\<close>; every comparison with NaN
  is false.\<close>

fun np_less :: "npfloat \<Rightarrow> real \<Rightarrow> bool" where
  "np_less (Finite x) c = (x < c)"
| "np_less NegInf c = True"
| "np_less PosInf c = False"
| "np_less NaN c = False"

text \<open>
  Division of an integer cell by an integer row sum after conversion to float, under
  \<open>np.seterr(divide='ignore', invalid='ignore')\<close> (validator.py, line 14): a zero
  divisor raises nothing and gives NaN for \<open>0/0\<close> and a signed infinity otherwise.
\<close>

definition true_divide :: "(real \<Rightarrow> real) \<Rightarrow> int \<Rightarrow> int \<Rightarrow> npfloat" where
  "true_divide rnd x y =
     (if y = 0 then (if x = 0 then NaN else if 0 < x then PosInf else NegInf)
      else Finite (rnd (real_of_int x / real_of_int y)))"

section \<open>computeConfusionMatrix (validator.py, lines 19 to 49)\<close>

text \<open>
  The three class labels, in the sorted order in which the confusion matrix lists them.
\<close>

datatype label = DOWNREG | NEUTRAL | UPREG

definition class_labels :: "label list" where
  "class_labels = [DOWNREG, NEUTRAL, UPREG]"

text \<open>
  The outcome of one trial is the test set as a list of (true label, predicted label)
  pairs: \<open>Ytest\<close> zipped with \<open>Ypred\<close>.
\<close>

type_synonym trial = "(label \<times> label) list"

type_synonym matrix = "int list list"

text \<open>
  Modelled from the spec: \<open>confusion_matrix\<close> is imported from scikit-learn. The
  ConfusionMatrix of the data model is a 3 x 3 mapping from (true label, predicted
  label) to a count: row \<open>t\<close>, column \<open>p\<close> holds the number of test examples with true
  label \<open>t\<close> that were predicted as \<open>p\<close>.
\<close>

definition confusion_matrix :: "trial \<Rightarrow> matrix" where
  "confusion_matrix ys =
     map (\<lambda>t. map (\<lambda>p. int (count_list ys (t, p))) class_labels) class_labels"

text \<open>\<open>np.add\<close> on two matrices of the same shape: element-wise addition.\<close>

definition np_add :: "matrix \<Rightarrow> matrix \<Rightarrow> matrix" where
  "np_add a b = map2 (map2 (+)) a b"

text \<open>
  The trial loop, lines 38 to 46. \<open>trial k\<close> is the outcome of the \<open>k\<close>-th pass
  through the loop body (a fresh split, a fresh forest). The state is \<open>count\<close> and
  \<open>matrix\<close>, which is unassigned (\<open>None\<close>) until the branch \<open>count is 0\<close> runs. The
  loop returns both, so the final \<open>count\<close> is the number of trials that were run.
\<close>

function computeConfusionMatrix_loop ::
  "(nat \<Rightarrow> trial) \<Rightarrow> int \<Rightarrow> nat \<Rightarrow> matrix option \<Rightarrow> py_error + (nat \<times> matrix option)"
where
  "computeConfusionMatrix_loop trial iterations count matrix =
     (if int count \<le> iterations then
        (let cm = confusion_matrix (trial count) in
         if count = 0 then
           computeConfusionMatrix_loop trial iterations (count + 1) (Some cm)
         else if count > 1 then
           (case matrix of
              None \<Rightarrow> Inl UnboundLocalError
            | Some m \<Rightarrow>
                computeConfusionMatrix_loop trial iterations (count + 1) (Some (np_add m cm)))
         else computeConfusionMatrix_loop trial iterations (count + 1) matrix)
      else Inr (count, matrix))"
  by pat_completeness auto
termination
  by (relation "measure (\<lambda>(trial, iterations, count, matrix). nat (iterations + 1 - int count))")
     auto

text \<open>Line 47: every row of the matrix, as floats, divided by the sum of that row.\<close>

definition normalize_rows :: "(real \<Rightarrow> real) \<Rightarrow> matrix \<Rightarrow> npfloat list list" where
  "normalize_rows rnd m = map (\<lambda>row. map (\<lambda>c. true_divide rnd c (sum_list row)) row) m"

definition computeConfusionMatrix ::
  "(real \<Rightarrow> real) \<Rightarrow> (nat \<Rightarrow> trial) \<Rightarrow> int \<Rightarrow> py_error + (matrix \<times> npfloat list list)"
where
  "computeConfusionMatrix rnd trial iterations =
     (case computeConfusionMatrix_loop trial iterations 0 None of
        Inl e \<Rightarrow> Inl e
      | Inr (count, None) \<Rightarrow> Inl UnboundLocalError
      | Inr (count, Some matrix) \<Rightarrow> Inr (matrix, normalize_rows rnd matrix))"

text \<open>The total of all cells, and the number of test examples with a given true label.\<close>

definition total_count :: "matrix \<Rightarrow> int" where
  "total_count m = sum_list (map sum_list m)"

definition true_count :: "label \<Rightarrow> trial \<Rightarrow> int" where
  "true_count t ys = int (length (filter (\<lambda>(a, p). a = t) ys))"

text \<open>
  Shape of a confusion matrix: three rows of three cells, none of them negative.
\<close>

definition well_shaped :: "matrix \<Rightarrow> bool" where
  "well_shaped m =
     (length m = 3 \<and> list_all (\<lambda>row. length row = 3 \<and> list_all (\<lambda>c. 0 \<le> c) row) m)"

section \<open>Summarize (validator.py, lines 51 to 129)\<close>

text \<open>
  The metrics of one trial, in the order in which the loop body stores them (lines 100
  to 112). The split, the forest and the scikit-learn metric functions are outside the
  repository, so a trial is given by the values they produce.
\<close>

record trial_metrics =
  OOBAccuracy :: npfloat
  CVAccuracy :: npfloat
  Kappa :: npfloat
  F1 :: npfloat
  MCC :: npfloat
  Precision :: npfloat
  Precision_first :: npfloat
  Precision_last :: npfloat
  Recall :: npfloat
  Recall_first :: npfloat
  Recall_last :: npfloat

text \<open>
  The table \<open>Summary\<close>: the column names it was created with, and the items stored
  under the keys \<open>(count, name)\<close> by the loop.
\<close>

record summary_frame =
  frame_columns :: "string list"
  frame_items :: "nat \<times> string \<rightharpoonup> npfloat"

definition setitem :: "summary_frame \<Rightarrow> nat \<times> string \<Rightarrow> npfloat \<Rightarrow> summary_frame" where
  "setitem frame key v = frame\<lparr>frame_items := (frame_items frame)(key \<mapsto> v)\<rparr>"

text \<open>An entry of the returned series: a number or a string.\<close>

datatype entry = Num npfloat | Str string

text \<open>
  The statistics of pandas and SciPy that the reduction calls, as parameters: the
  standard deviation and the mean of a column of the table, the one-sample t-test of a
  column against a value (t-score and p-value), and the mean of the table along axis 1.
\<close>

record stats =
  Series_std :: "summary_frame \<Rightarrow> string \<Rightarrow> npfloat"
  Series_mean :: "summary_frame \<Rightarrow> string \<Rightarrow> npfloat"
  ttest_1samp :: "summary_frame \<Rightarrow> string \<Rightarrow> npfloat \<Rightarrow> npfloat \<times> npfloat"
  DataFrame_mean :: "summary_frame \<Rightarrow> string \<rightharpoonup> entry"

text \<open>
  A reduction of a pandas Series along an axis. A Series has the single axis 0: for
  any other axis number the reduction raises ValueError. \<open>v\<close> is the value of the
  reduction along axis 0.
\<close>

definition Series_reduce :: "npfloat \<Rightarrow> int \<Rightarrow> py_error + npfloat" where
  "Series_reduce v axis = (if axis = 0 then Inr v else Inl ValueError)"

text \<open>
  Lines 82 to 85. \<open>is\<close> compares the identity of objects: \<open>same_object\<close> tells whether
  the argument \<open>target\<close> is the very object of the literal \<open>"CNV"\<close>, which only the
  string \<open>CNV\<close> can be.
\<close>

definition Summarize_labels :: "bool \<Rightarrow> string \<Rightarrow> string list" where
  "Summarize_labels same_object target =
     (if same_object \<and> target = ''CNV'' then [''GAIN'', ''NEUT'', ''LOSS'']
      else [''UPREG'', ''NEUTRAL'', ''DOWNREG''])"

text \<open>Lines 88 to 91. The literals \<open>'MCC'\<close> and \<open>'Precision'\<close> have no comma between
  them, so Python joins them into one column name.\<close>

definition Summary_columns :: "string list" where
  "Summary_columns =
     [''CV'', ''Accuracy'', ''Sigma'', ''Mean'', ''Kappa'', ''F1'', ''MCCPrecision'', ''Recall'',
      ''UPREG/GAIN Precision'', ''DOWNREG/LOSS Precision'', ''UPREG/GAIN Recall'',
      ''DOWNREG/LOSS Recall'', ''T-score'', ''P-value'']"

text \<open>The body of the loop, lines 100 to 112 (line 106 without its last character).\<close>

definition Summarize_store :: "nat \<Rightarrow> trial_metrics \<Rightarrow> summary_frame \<Rightarrow> summary_frame" where
  "Summarize_store count t Summary =
     (let Summary = setitem Summary (count, ''Accuracy'') (OOBAccuracy t);
          Summary = setitem Summary (count, ''CV'') (CVAccuracy t);
          Summary = setitem Summary (count, ''Kappa'') (Kappa t);
          Summary = setitem Summary (count, ''F1'') (F1 t);
          Summary = setitem Summary (count, ''MCC'') (MCC t);
          Summary = setitem Summary (count, ''Precision'') (Precision t);
          Summary = setitem Summary (count, ''UPREG/GAIN Precision'') (Precision_first t);
          Summary = setitem Summary (count, ''DOWNREG/LOSS Precision'') (Precision_last t);
          Summary = setitem Summary (count, ''Recall'') (Recall t);
          Summary = setitem Summary (count, ''UPREG/GAIN Recall'') (Recall_first t);
          Summary = setitem Summary (count, ''DOWNREG/LOSS Recall'') (Recall_last t)
      in Summary)"

text \<open>The trial loop, lines 92 to 114; it returns the final \<open>count\<close> and the table.\<close>

function Summarize_loop ::
  "(nat \<Rightarrow> trial_metrics) \<Rightarrow> int \<Rightarrow> nat \<Rightarrow> summary_frame \<Rightarrow> nat \<times> summary_frame"
where
  "Summarize_loop trial iterations count Summary =
     (if int count \<le> iterations then
        Summarize_loop trial iterations (count + 1) (Summarize_store count (trial count) Summary)
      else (count, Summary))"
  by pat_completeness auto
termination
  by (relation "measure (\<lambda>(trial, iterations, count, Summary). nat (iterations + 1 - int count))")
     auto

text \<open>The literal \<open>1E-50\<close> of lines 119 and 120.\<close>

definition pvalue_floor :: real where
  "pvalue_floor = 1 / 10 ^ 50"

text \<open>
  \<open>trial labels k\<close> is the \<open>k\<close>-th trial on the data set named by \<open>filename\<close>,
  \<open>target\<close> and \<open>exclude\<close>, with its per-class scores taken at \<open>labels[0]\<close> and
  \<open>labels[2]\<close>. Lines 116 and 117 reduce the column \<open>Summary['Accuracy']\<close>, a Series,
  along axis 1. The result is the exception raised or the returned series, from label
  to entry.
\<close>

definition Summarize ::
  "stats \<Rightarrow> bool \<Rightarrow> (string list \<Rightarrow> nat \<Rightarrow> trial_metrics) \<Rightarrow> string \<Rightarrow> string \<Rightarrow> int \<Rightarrow>
   py_error + (string \<rightharpoonup> entry)"
where
  "Summarize st same_object trial filename target iterations =
     (let labels = Summarize_labels same_object target;
          cancer = takeWhile (\<lambda>c. c \<noteq> CHR ''.'') filename;
          Summary = \<lparr>frame_columns = Summary_columns, frame_items = Map.empty\<rparr>;
          (count, Summary) = Summarize_loop (trial labels) iterations 0 Summary
      in case Series_reduce (Series_std st Summary ''Accuracy'') 1 of
           Inl e \<Rightarrow> Inl e
         | Inr sigma \<Rightarrow>
             (case Series_reduce (Series_mean st Summary ''Accuracy'') 1 of
                Inl e \<Rightarrow> Inl e
              | Inr mu \<Rightarrow>
                  (let (tscore, pvalue) = ttest_1samp st Summary ''Accuracy'' mu;
                       pvalue = (if np_less pvalue pvalue_floor then Finite pvalue_floor
                                 else pvalue);
                       Summary = DataFrame_mean st Summary
                   in Inr (Summary(''T-score'' \<mapsto> Num tscore, ''P-Value'' \<mapsto> Num pvalue,
                                   ''Sigma'' \<mapsto> Num sigma, ''Mean'' \<mapsto> Num mu,
                                   ''Cancer'' \<mapsto> Str cancer)))))"

section \<open>PearsonCorrelation (validator.py, lines 132 to 167)\<close>

text \<open>
  A data frame as the loop reads it: its column names and the column under a name.
\<close>

record 'col data_frame =
  df_columns :: "string list"
  df_col :: "string \<Rightarrow> 'col"

definition gradient :: "real list" where
  "gradient = [1.0, 0.0, -1.0]"

text \<open>
  \<open>pearsonr\<close> of SciPy returns a pair, the correlation coefficient and its p-value.
  \<open>np.isnan\<close> maps the pair to an array of two truth values, and the comparison
  \<open>!= True\<close> maps that array to another one.
\<close>

definition np_isnan :: "npfloat \<times> npfloat \<Rightarrow> bool list" where
  "np_isnan correlation = [isnan (fst correlation), isnan (snd correlation)]"

definition array_ne :: "bool list \<Rightarrow> bool \<Rightarrow> bool list" where
  "array_ne a b = map (\<lambda>x. x \<noteq> b) a"

text \<open>
  The truth value of an array, as an \<open>if\<close> statement takes it: that of its element
  when it has one element, and ValueError when it has more than one (an empty array,
  which does not occur here, counts as false).
\<close>

fun array_bool :: "bool list \<Rightarrow> py_error + bool" where
  "array_bool [] = Inr False"
| "array_bool [b] = Inr b"
| "array_bool (b # c # bs) = Inl ValueError"

text \<open>What line 160 or line 162 stores: the result of \<open>pearsonr\<close> or the float 0.0.\<close>

datatype stored = Result "npfloat \<times> npfloat" | Number npfloat

text \<open>
  Lines 155 to 162, the body of the loop over the columns of one frame, with the
  dictionary \<open>corr\<close> as its state. \<open>median\<close> and \<open>pearsonr\<close> are the pandas and SciPy
  functions.
\<close>

definition correlate_column ::
  "('col \<Rightarrow> 'med) \<Rightarrow> ('med \<Rightarrow> real list \<Rightarrow> npfloat \<times> npfloat) \<Rightarrow> 'col data_frame \<Rightarrow> string \<Rightarrow>
   (string \<rightharpoonup> stored) \<Rightarrow> py_error + (string \<rightharpoonup> stored)"
where
  "correlate_column median pearsonr df col corr =
     (let correlation = pearsonr (median (df_col df col)) gradient
      in case array_bool (array_ne (np_isnan correlation) True) of
           Inl e \<Rightarrow> Inl e
         | Inr True \<Rightarrow> Inr (corr(col \<mapsto> Result correlation))
         | Inr False \<Rightarrow> Inr (corr(col \<mapsto> Number (Finite 0.0))))"

fun columns_loop ::
  "('col \<Rightarrow> 'med) \<Rightarrow> ('med \<Rightarrow> real list \<Rightarrow> npfloat \<times> npfloat) \<Rightarrow> 'col data_frame \<Rightarrow>
   string list \<Rightarrow> (string \<rightharpoonup> stored) \<Rightarrow> py_error + (string \<rightharpoonup> stored)"
where
  "columns_loop median pearsonr df [] corr = Inr corr"
| "columns_loop median pearsonr df (col # cols) corr =
     (case correlate_column median pearsonr df col corr of
        Inl e \<Rightarrow> Inl e
      | Inr corr' \<Rightarrow> columns_loop median pearsonr df cols corr')"

text \<open>
  The outer loop, lines 148 to 165, with the dictionary \<open>pearsonCorrelationDict\<close> as
  its state. \<open>count\<close> is set to 0 at the head of every pass, so every pass stores its
  \<open>corr\<close> under the key 0. \<open>pop\<close> is line 153.
\<close>

fun frames_loop ::
  "('col \<Rightarrow> 'med) \<Rightarrow> ('med \<Rightarrow> real list \<Rightarrow> npfloat \<times> npfloat) \<Rightarrow>
   ('d \<Rightarrow> string \<Rightarrow> 'col data_frame) \<Rightarrow> string \<Rightarrow> 'd list \<Rightarrow>
   (nat \<rightharpoonup> (string \<rightharpoonup> stored)) \<Rightarrow> py_error + (nat \<rightharpoonup> (string \<rightharpoonup> stored))"
where
  "frames_loop median pearsonr pop target [] pearsonCorrelationDict =
     Inr pearsonCorrelationDict"
| "frames_loop median pearsonr pop target (df # dfs) pearsonCorrelationDict =
     (let count = 0;
          df = pop df target
      in case columns_loop median pearsonr df (df_columns df) Map.empty of
           Inl e \<Rightarrow> Inl e
         | Inr corr \<Rightarrow>
             frames_loop median pearsonr pop target dfs (pearsonCorrelationDict(count \<mapsto> corr)))"

definition PearsonCorrelation ::
  "('col \<Rightarrow> 'med) \<Rightarrow> ('med \<Rightarrow> real list \<Rightarrow> npfloat \<times> npfloat) \<Rightarrow>
   ('d \<Rightarrow> string \<Rightarrow> 'col data_frame) \<Rightarrow> 'd list \<Rightarrow> string \<Rightarrow>
   py_error + (nat \<rightharpoonup> (string \<rightharpoonup> stored))"
where
  "PearsonCorrelation median pearsonr pop diffExpDFs target =
     frames_loop median pearsonr pop target diffExpDFs Map.empty"

section \<open>The ablation sweep (validator.py, lines 259 to 270 and 321 to 332)\<close>

text \<open>
  A row of the output table: cancer, target, the held-out group and the accuracy.
\<close>

type_synonym 'a ablation_row = "string \<times> string \<times> string \<times> 'a"

text \<open>
  The state of the sweep: the variable \<open>rfc\<close> (unassigned until the first fit), the
  list \<open>output\<close>, and the grid points \<open>(n_estimators, max_features)\<close> at which a forest
  was fitted, in order.
\<close>

record ('m, 'a) sweep =
  rfc :: "'m option"
  fits :: "(int \<times> int) list"
  "output" :: "'a ablation_row list"

text \<open>
  The inner loop over the tree count. \<open>fit trees feat\<close> is the forest with
  \<open>n_estimators = trees\<close> and \<open>max_features = feat\<close> fitted to the training
  partition.
\<close>

function trees_loop ::
  "(int \<Rightarrow> int \<Rightarrow> 'm) \<Rightarrow> int \<Rightarrow> int \<Rightarrow> ('m, 'a) sweep \<Rightarrow> ('m, 'a) sweep"
where
  "trees_loop fit feat trees st =
     (if trees \<le> 500 then
        trees_loop fit feat (trees + 1500)
          (st\<lparr>rfc := Some (fit trees feat), fits := fits st @ [(trees, feat)]\<rparr>)
      else st)"
  by pat_completeness auto
termination
  by (relation "measure (\<lambda>(fit, feat, trees, st). nat (501 - trees))") auto

text \<open>
  The outer loop over the feature count. \<open>score\<close> is the accuracy of a forest on the
  evaluation partition; \<open>ncols\<close> is \<open>shape[1]\<close> of the training partition. \<open>canc\<close>
  and \<open>targ\<close> are the values of the names \<open>canc\<close> and \<open>targ\<close> where the sweep stands,
  \<open>None\<close> for a name that is not bound there; the list appended to \<open>output\<close> reads
  them after the score has been computed.
\<close>

function feat_loop ::
  "(int \<Rightarrow> int \<Rightarrow> 'm) \<Rightarrow> ('m \<Rightarrow> 'a) \<Rightarrow> string option \<Rightarrow> string option \<Rightarrow> string \<Rightarrow> int \<Rightarrow> int \<Rightarrow>
   ('m, 'a) sweep \<Rightarrow> py_error + ('m, 'a) sweep"
where
  "feat_loop fit score canc targ held ncols feat st =
     (if feat < ncols - 1 then
        (let trees = 5;
             st = trees_loop fit feat trees st;
             feat = feat + 20
         in case rfc st of
              None \<Rightarrow> Inl UnboundLocalError
            | Some m \<Rightarrow>
                (let mean_acc = score m
                 in case canc of
                      None \<Rightarrow> Inl NameError
                    | Some c \<Rightarrow>
                        (case targ of
                           None \<Rightarrow> Inl NameError
                         | Some t \<Rightarrow>
                             feat_loop fit score canc targ held ncols feat
                               (st\<lparr>output := output st @ [(c, t, held, mean_acc)]\<rparr>))))
      else Inr st)"
  by pat_completeness auto
termination
  by (relation "measure (\<lambda>(fit, score, canc, targ, held, ncols, feat, st). nat (ncols - 1 - feat))")
     auto

definition ablation_sweep ::
  "(int \<Rightarrow> int \<Rightarrow> 'm) \<Rightarrow> ('m \<Rightarrow> 'a) \<Rightarrow> string option \<Rightarrow> string option \<Rightarrow> string \<Rightarrow> int \<Rightarrow>
   ('m, 'a) sweep \<Rightarrow> py_error + ('m, 'a) sweep"
where
  "ablation_sweep fit score canc targ held ncols st =
     (let feat = ncols - 10 in feat_loop fit score canc targ held ncols feat st)"

section \<open>leave_one_feat_out (validator.py, lines 211 to 277)\<close>

text \<open>\<open>df.drop(labels, axis=1)\<close>: the columns whose label is not among \<open>labels\<close>.\<close>

definition drop_columns :: "'c list \<Rightarrow> 'c list \<Rightarrow> 'c list" where
  "drop_columns df labels = filter (\<lambda>c. c \<notin> set labels) df"

text \<open>
  Lines 232 to 252: the five frames with the names the loop gives them, in the order
  of the list \<open>dfs\<close>. A frame is the list of its columns. \<open>df.columns[134]\<close> raises
  when the frame has fewer than 135 columns.
\<close>

definition feature_groups :: "'c list \<Rightarrow> py_error + (string \<times> 'c list) list" where
  "feature_groups df =
     (let dynm = drop_columns df (take 52 df);
          topo = drop_columns df (take (132 - 53) (drop 53 df));
          kexp = drop_columns df (drop 132 df);
          genexp = drop_columns df (drop 133 df)
      in if length df \<le> 134 then Inl IndexError
         else (let subsys = drop_columns df [df ! 134]
               in Inr [(''Toplogical Features'', topo), (''Dynamic Features'', dynm),
                       (''Gene expression and kcat'', kexp), (''Gene expression only'', genexp),
                       (''RECON1 Subsystem only'', subsys)]))"

text \<open>
  One pass of the loop over \<open>dfs\<close>, lines 256 to 270. \<open>fit df\<close> fits to the training
  partition of the split of the frame \<open>df\<close>, and \<open>score df\<close> scores on its held-out
  partition. Line 270 reads the names \<open>canc\<close> and \<open>targ\<close>. The parameters of
  \<open>leave_one_feat_out\<close> are \<open>filename\<close>, \<open>target\<close> and \<open>exclude\<close>, its body assigns
  \<open>cancer\<close>, and the module binds no global of either name: both are unbound.
\<close>

definition lofo_group ::
  "('c list \<Rightarrow> int \<Rightarrow> int \<Rightarrow> 'm) \<Rightarrow> ('c list \<Rightarrow> 'm \<Rightarrow> 'a) \<Rightarrow> string \<times> 'c list \<Rightarrow>
   ('m, 'a) sweep \<Rightarrow> py_error + ('m, 'a) sweep"
where
  "lofo_group fit score g st =
     (case g of (lofo, df) \<Rightarrow>
        ablation_sweep (fit df) (score df) None None lofo (int (length df)) st)"

fun lofo_groups ::
  "('c list \<Rightarrow> int \<Rightarrow> int \<Rightarrow> 'm) \<Rightarrow> ('c list \<Rightarrow> 'm \<Rightarrow> 'a) \<Rightarrow> (string \<times> 'c list) list \<Rightarrow>
   ('m, 'a) sweep \<Rightarrow> py_error + ('m, 'a) sweep"
where
  "lofo_groups fit score [] st = Inr st"
| "lofo_groups fit score (g # dfs) st =
     (case lofo_group fit score g st of
        Inl e \<Rightarrow> Inl e
      | Inr st' \<Rightarrow> lofo_groups fit score dfs st')"

text \<open>
  \<open>prepare\<close> is lines 223 to 230: the functions of the module \<open>DataPreparation\<close>, which
  is outside the repository, build the scaled frame from the three arguments.
\<close>

definition leave_one_feat_out ::
  "(string \<Rightarrow> string \<Rightarrow> string \<Rightarrow> 'c list) \<Rightarrow> ('c list \<Rightarrow> int \<Rightarrow> int \<Rightarrow> 'm) \<Rightarrow> ('c list \<Rightarrow> 'm \<Rightarrow> 'a) \<Rightarrow>
   string \<Rightarrow> string \<Rightarrow> string \<Rightarrow> py_error + 'a ablation_row list"
where
  "leave_one_feat_out prepare fit score filename target exclude =
     (let df = prepare filename target exclude
      in case feature_groups df of
           Inl e \<Rightarrow> Inl e
         | Inr dfs \<Rightarrow>
             (case lofo_groups fit score dfs \<lparr>rfc = None, fits = [], output = []\<rparr> of
                Inl e \<Rightarrow> Inl e
              | Inr st \<Rightarrow> Inr (output st)))"

section \<open>leave_one_cell_out (validator.py, lines 280 to 337)\<close>

text \<open>
  A row of \<open>df2\<close>: its cell line, its feature values and its class.
\<close>

record ('x, 'y) sample =
  Cell_Line :: string
  features :: 'x
  target_class :: 'y

text \<open>
  \<open>Series.str.contains(pat)\<close> of pandas searches for \<open>pat\<close> as a regular expression
  (\<open>regex=True\<close> is its default). The fragment interpreted here: a pattern of ordinary
  characters and parentheses. Parentheses group and match nothing themselves, so the
  pattern is found where its ordinary characters occur as a substring; unbalanced
  parentheses are an error of the compiler. A pattern with any other metacharacter is
  \<open>Unmodelled\<close>.
\<close>

definition regex_special :: "char list" where
  "regex_special = ''.^$*+?{}[]|'' @ [CHR 0x5C]"

fun balanced :: "nat \<Rightarrow> string \<Rightarrow> bool" where
  "balanced d [] = (d = 0)"
| "balanced d (c # cs) =
     (if c = CHR ''('' then balanced (Suc d) cs
      else if c = CHR '')'' then (0 < d \<and> balanced (d - 1) cs)
      else balanced d cs)"

definition re_compile :: "string \<Rightarrow> py_error + string" where
  "re_compile pat =
     (if list_ex (\<lambda>c. c \<in> set regex_special) pat then Inl Unmodelled
      else if \<not> balanced 0 pat then Inl ReError
      else Inr (filter (\<lambda>c. c \<noteq> CHR ''('' \<and> c \<noteq> CHR '')'') pat))"

text \<open>A pattern without any metacharacter.\<close>

definition literal_pattern :: "string \<Rightarrow> bool" where
  "literal_pattern pat = (\<not> list_ex (\<lambda>c. c \<in> set (regex_special @ ''()'')) pat)"

definition str_contains :: "string list \<Rightarrow> string \<Rightarrow> py_error + bool list" where
  "str_contains series pat =
     (case re_compile pat of
        Inl e \<Rightarrow> Inl e
      | Inr lit \<Rightarrow> Inr (map (\<lambda>s. sublist lit s) series))"

text \<open>\<open>Series.unique()\<close>: the distinct values in the order of their first appearance.\<close>

definition unique :: "'a list \<Rightarrow> 'a list" where
  "unique xs = rev (remdups (rev xs))"

text \<open>Line 307: the rows of \<open>df2\<close> in which the pattern is not found.\<close>

definition new_df :: "('x, 'y) sample list \<Rightarrow> string \<Rightarrow> py_error + ('x, 'y) sample list" where
  "new_df df2 cell =
     (case str_contains (map Cell_Line df2) cell of
        Inl e \<Rightarrow> Inl e
      | Inr found \<Rightarrow> Inr (map fst (filter (\<lambda>(r, b). \<not> b) (zip df2 found))))"

text \<open>
  Lines 307 to 319: the training partition \<open>data\<close> (after oversampling) and the
  evaluation partition \<open>orig_data\<close> for one held-out cell line. \<open>train_test_split\<close> and
  the oversampler \<open>fit_sample\<close> are the library functions.
\<close>

definition partitions ::
  "(('x, 'y) sample list \<Rightarrow> ('x, 'y) sample list \<times> ('x, 'y) sample list) \<Rightarrow>
   (('x, 'y) sample list \<Rightarrow> ('x, 'y) sample list) \<Rightarrow> ('x, 'y) sample list \<Rightarrow> string \<Rightarrow>
   py_error + (('x, 'y) sample list \<times> ('x, 'y) sample list)"
where
  "partitions train_test_split fit_sample df2 cell =
     (case new_df df2 cell of
        Inl e \<Rightarrow> Inl e
      | Inr rows \<Rightarrow>
          (case train_test_split rows of
             (new_data, orig_data) \<Rightarrow> Inr (fit_sample new_data, orig_data)))"

text \<open>
  One pass of the loop over \<open>groups\<close>. \<open>ncols\<close> is the number of feature columns,
  \<open>fit data\<close> fits to the training partition and \<open>score orig_data\<close> scores on the
  evaluation partition. \<open>canc\<close> and \<open>targ\<close> are parameters of \<open>leave_one_cell_out\<close>.
\<close>

definition loco_group ::
  "(('x, 'y) sample list \<Rightarrow> ('x, 'y) sample list \<times> ('x, 'y) sample list) \<Rightarrow>
   (('x, 'y) sample list \<Rightarrow> ('x, 'y) sample list) \<Rightarrow>
   (('x, 'y) sample list \<Rightarrow> int \<Rightarrow> int \<Rightarrow> 'm) \<Rightarrow> (('x, 'y) sample list \<Rightarrow> 'm \<Rightarrow> 'a) \<Rightarrow> int \<Rightarrow>
   string \<Rightarrow> string \<Rightarrow> ('x, 'y) sample list \<Rightarrow> string \<Rightarrow> ('m, 'a) sweep \<Rightarrow> py_error + ('m, 'a) sweep"
where
  "loco_group train_test_split fit_sample fit score ncols canc targ df2 cell st =
     (case partitions train_test_split fit_sample df2 cell of
        Inl e \<Rightarrow> Inl e
      | Inr (data, orig_data) \<Rightarrow>
          ablation_sweep (fit data) (score orig_data) (Some canc) (Some targ) cell ncols st)"

fun loco_groups ::
  "(('x, 'y) sample list \<Rightarrow> ('x, 'y) sample list \<times> ('x, 'y) sample list) \<Rightarrow>
   (('x, 'y) sample list \<Rightarrow> ('x, 'y) sample list) \<Rightarrow>
   (('x, 'y) sample list \<Rightarrow> int \<Rightarrow> int \<Rightarrow> 'm) \<Rightarrow> (('x, 'y) sample list \<Rightarrow> 'm \<Rightarrow> 'a) \<Rightarrow> int \<Rightarrow>
   string \<Rightarrow> string \<Rightarrow> ('x, 'y) sample list \<Rightarrow> string list \<Rightarrow> ('m, 'a) sweep \<Rightarrow>
   py_error + ('m, 'a) sweep"
where
  "loco_groups train_test_split fit_sample fit score ncols canc targ df2 [] st = Inr st"
| "loco_groups train_test_split fit_sample fit score ncols canc targ df2 (cell # groups) st =
     (case loco_group train_test_split fit_sample fit score ncols canc targ df2 cell st of
        Inl e \<Rightarrow> Inl e
      | Inr st' \<Rightarrow> loco_groups train_test_split fit_sample fit score ncols canc targ df2 groups st')"

text \<open>
  Lines 297 and 298 scale the feature values: \<open>scale xs\<close> is the map that the scaler
  fitted to the values \<open>xs\<close> applies to each of them.
\<close>

definition leave_one_cell_out ::
  "('x list \<Rightarrow> 'x \<Rightarrow> 'x) \<Rightarrow>
   (('x, 'y) sample list \<Rightarrow> ('x, 'y) sample list \<times> ('x, 'y) sample list) \<Rightarrow>
   (('x, 'y) sample list \<Rightarrow> ('x, 'y) sample list) \<Rightarrow>
   (('x, 'y) sample list \<Rightarrow> int \<Rightarrow> int \<Rightarrow> 'm) \<Rightarrow> (('x, 'y) sample list \<Rightarrow> 'm \<Rightarrow> 'a) \<Rightarrow> int \<Rightarrow>
   ('x, 'y) sample list \<Rightarrow> string \<Rightarrow> string \<Rightarrow> py_error + 'a ablation_row list"
where
  "leave_one_cell_out scale train_test_split fit_sample fit score ncols df2 canc targ =
     (let num = map (scale (map features df2)) (map features df2);
          df2 = map (\<lambda>(r, x). r\<lparr>features := x\<rparr>) (zip df2 num);
          groups = unique (map Cell_Line df2)
      in case loco_groups train_test_split fit_sample fit score ncols canc targ df2 groups
                \<lparr>rfc = None, fits = [], output = []\<rparr> of
           Inl e \<Rightarrow> Inl e
         | Inr st \<Rightarrow> Inr (output st))"

section \<open>The trial loop of computeConfusionMatrix\<close>

declare computeConfusionMatrix_loop.simps [simp del]

declare Summarize_loop.simps [simp del]

declare trees_loop.simps [simp del]

declare feat_loop.simps [simp del]

text \<open>
  Once two trials have run, every further pass adds its confusion matrix, and the loop
  ends with \<open>count = iterations + 1\<close>.
\<close>

lemma loop_exit:
  "\<not> int count \<le> iterations \<Longrightarrow>
   computeConfusionMatrix_loop trial iterations count matrix = Inr (count, matrix)"
  by (simp add: computeConfusionMatrix_loop.simps)

lemma loop_tail:
  "2 \<le> count \<Longrightarrow> int count \<le> iterations + 1 \<Longrightarrow>
   computeConfusionMatrix_loop trial iterations count (Some m) =
     Inr (nat (iterations + 1),
          Some (foldl np_add m (map (\<lambda>k. confusion_matrix (trial k)) [count..<nat (iterations + 1)])))"
proof (induction "nat (iterations + 1) - count" arbitrary: count m)
  case 0
  then have "count = nat (iterations + 1)" by linarith
  with 0 show ?case by (simp add: loop_exit)
next
  case (Suc d)
  then have le: "int count \<le> iterations" and c1: "count > 1" and c0: "count \<noteq> 0" by linarith+
  have d: "d = nat (iterations + 1) - (count + 1)" using Suc.hyps(2) by linarith
  have lt: "count < nat (iterations + 1)" using le by linarith
  have step: "computeConfusionMatrix_loop trial iterations count (Some m) =
      computeConfusionMatrix_loop trial iterations (count + 1) (Some (np_add m (confusion_matrix (trial count))))"
    using le c1 c0 by (subst computeConfusionMatrix_loop.simps) (simp add: Let_def)
  have "computeConfusionMatrix_loop trial iterations (count + 1) (Some (np_add m (confusion_matrix (trial count)))) =
     Inr (nat (iterations + 1),
          Some (foldl np_add (np_add m (confusion_matrix (trial count)))
                 (map (\<lambda>k. confusion_matrix (trial k)) [count + 1..<nat (iterations + 1)])))"
    using Suc.hyps(1)[OF d] Suc.prems le by simp
  with step lt show ?case by (simp add: upt_conv_Cons)
qed

text \<open>
  The whole loop. For a non-negative \<open>iterations\<close> it runs \<open>iterations + 1\<close> trials;
  the matrix is the one of trial 0 plus those of the trials 2 to \<open>iterations\<close>. The
  pass with \<open>count = 1\<close> takes neither branch of lines 42 to 45.
\<close>

lemma loop_run:
  "computeConfusionMatrix_loop trial iterations 0 None =
     (if iterations < 0 then Inr (0, None)
      else if iterations = 0 then Inr (1, Some (confusion_matrix (trial 0)))
      else Inr (nat (iterations + 1),
                Some (foldl np_add (confusion_matrix (trial 0))
                       (map (\<lambda>k. confusion_matrix (trial k)) [2..<nat (iterations + 1)]))))"
proof -
  consider "iterations < 0" | "iterations = 0" | "0 < iterations" by linarith
  then show ?thesis
  proof cases
    case 1 then show ?thesis by (simp add: loop_exit)
  next
    case 2 then show ?thesis
      by (subst computeConfusionMatrix_loop.simps) (simp add: Let_def loop_exit)
  next
    case 3
    have s0: "computeConfusionMatrix_loop trial iterations 0 None =
        computeConfusionMatrix_loop trial iterations 1 (Some (confusion_matrix (trial 0)))"
      using 3 by (subst computeConfusionMatrix_loop.simps) (simp add: Let_def)
    have s1: "computeConfusionMatrix_loop trial iterations 1 (Some (confusion_matrix (trial 0))) =
        computeConfusionMatrix_loop trial iterations 2 (Some (confusion_matrix (trial 0)))"
      using 3 by (subst computeConfusionMatrix_loop.simps) (simp add: Let_def numeral_2_eq_2)
    have s2: "computeConfusionMatrix_loop trial iterations 2 (Some (confusion_matrix (trial 0))) =
        Inr (nat (iterations + 1),
                Some (foldl np_add (confusion_matrix (trial 0))
                       (map (\<lambda>k. confusion_matrix (trial k)) [2..<nat (iterations + 1)])))"
      using 3 by (intro loop_tail) simp_all
    show ?thesis using 3 s0 s1 s2 by simp
  qed
qed

text \<open>
  Claim C1 (the aggregator runs exactly \<open>iterations\<close> trials, so the total of the matrix
  is \<open>iterations\<close> times the size of the test set). The loops of
  \<open>computeConfusionMatrix\<close> and of \<open>Summarize\<close> test \<open>count <= iterations\<close> with
  \<open>count\<close> starting at 0. With a test set of three examples: for \<open>iterations = 1\<close> two
  trials run, and for \<open>iterations = 0\<close> one trial runs and the total of the matrix is 3,
  not 0. The loop of \<open>Summarize\<close> ends with \<open>count = 2\<close> and \<open>count = 1\<close> for these
  two inputs.
\<close>

theorem trial_loops_run_one_more:
  "computeConfusionMatrix_loop
     (\<lambda>k. [(DOWNREG, DOWNREG), (NEUTRAL, NEUTRAL), (UPREG, UPREG)]) 1 0 None =
     Inr (2, Some [[1, 0, 0], [0, 1, 0], [0, 0, 1]]) \<and>
   computeConfusionMatrix_loop
     (\<lambda>k. [(DOWNREG, DOWNREG), (NEUTRAL, NEUTRAL), (UPREG, UPREG)]) 0 0 None =
     Inr (1, Some [[1, 0, 0], [0, 1, 0], [0, 0, 1]]) \<and>
   total_count [[1, 0, 0], [0, 1, 0], [0, 0, 1]] = 3 \<and>
   fst (Summarize_loop trial 1 0 Summary) = 2 \<and>
   fst (Summarize_loop trial 0 0 Summary) = 1"
  by (simp add: loop_run confusion_matrix_def class_labels_def total_count_def
        Summarize_loop.simps)

text \<open>
  Claim C2 (the first trial initialises the matrix, every later trial is added, so each
  row sum is the number of test examples with that true label over all trials so far).
  For \<open>iterations = 1\<close> and two trials with one test example of each class: two trials
  have run and every row of the matrix sums to 1, while two test examples of every
  class have been classified. The matrix is the one of the first trial alone.
\<close>

theorem second_trial_discarded:
  "computeConfusionMatrix_loop
     (\<lambda>k. if k = 0 then [(DOWNREG, DOWNREG), (NEUTRAL, NEUTRAL), (UPREG, UPREG)]
          else [(DOWNREG, NEUTRAL), (NEUTRAL, UPREG), (UPREG, DOWNREG)]) 1 0 None =
     Inr (2, Some [[1, 0, 0], [0, 1, 0], [0, 0, 1]]) \<and>
   map sum_list [[1, 0, 0], [0, 1, 0], [0, 0, 1]] = [1, 1, 1::int] \<and>
   map (\<lambda>t. true_count t [(DOWNREG, DOWNREG), (NEUTRAL, NEUTRAL), (UPREG, UPREG)] +
             true_count t [(DOWNREG, NEUTRAL), (NEUTRAL, UPREG), (UPREG, DOWNREG)])
       class_labels = [2, 2, 2]"
  by (simp add: loop_run confusion_matrix_def class_labels_def true_count_def)

text \<open>
  Claim C3 (the accumulated matrix is the same under every order of the trials). Three
  trials with one test example of each class, run in two orders that exchange the first
  two: the matrices differ, since each run leaves out the trial in the second position.
\<close>

theorem accumulation_depends_on_order:
  "computeConfusionMatrix_loop
     (\<lambda>k. [[(DOWNREG, DOWNREG), (NEUTRAL, NEUTRAL), (UPREG, UPREG)],
            [(DOWNREG, NEUTRAL), (NEUTRAL, UPREG), (UPREG, DOWNREG)],
            [(DOWNREG, UPREG), (NEUTRAL, DOWNREG), (UPREG, NEUTRAL)]] ! k) 2 0 None =
     Inr (3, Some [[1, 0, 1], [1, 1, 0], [0, 1, 1]]) \<and>
   computeConfusionMatrix_loop
     (\<lambda>k. [[(DOWNREG, NEUTRAL), (NEUTRAL, UPREG), (UPREG, DOWNREG)],
            [(DOWNREG, DOWNREG), (NEUTRAL, NEUTRAL), (UPREG, UPREG)],
            [(DOWNREG, UPREG), (NEUTRAL, DOWNREG), (UPREG, NEUTRAL)]] ! k) 2 0 None =
     Inr (3, Some [[0, 1, 1], [1, 0, 1], [1, 1, 0]])"
  by (simp add: loop_run confusion_matrix_def class_labels_def np_add_def upt_conv_Cons)

section \<open>Normalisation of the rows\<close>

text \<open>
  Every accumulated matrix has three rows of three non-negative cells.
\<close>

lemma well_shaped_confusion_matrix: "well_shaped (confusion_matrix ys)"
  by (simp add: well_shaped_def confusion_matrix_def class_labels_def)

lemma well_shaped_np_add: "well_shaped a \<Longrightarrow> well_shaped b \<Longrightarrow> well_shaped (np_add a b)"
  by (auto simp: well_shaped_def np_add_def list_all_iff dest!: set_zip_leftD set_zip_rightD
        elim!: in_set_zipE)

lemma well_shaped_foldl:
  "well_shaped m \<Longrightarrow> list_all well_shaped ms \<Longrightarrow> well_shaped (foldl np_add m ms)"
  by (induction ms arbitrary: m) (simp_all add: well_shaped_np_add)

lemma loop_well_shaped:
  "computeConfusionMatrix_loop trial iterations 0 None = Inr (count, Some m) \<Longrightarrow> well_shaped m"
  by (auto simp: loop_run well_shaped_confusion_matrix list_all_iff
        intro!: well_shaped_foldl split: if_splits)

text \<open>
  A rounding function with relative error at most \<open>eps\<close> moves the sum of the quotients
  of a row by at most \<open>eps\<close> times that sum, and the exact quotients sum to 1.
\<close>

lemma rounded_sum_bound:
  fixes rnd :: "real \<Rightarrow> real"
  assumes "\<forall>x. \<bar>rnd x - x\<bar> \<le> eps * \<bar>x\<bar>" and "0 < s" and "list_all (\<lambda>c. 0 \<le> c) row"
  shows "\<bar>sum_list (map (\<lambda>c. rnd (real_of_int c / s)) row) - sum_list (map (\<lambda>c. real_of_int c / s) row)\<bar>
         \<le> eps * sum_list (map (\<lambda>c. real_of_int c / s) row)"
  using assms(3)
proof (induction row)
  case Nil
  then show ?case by simp
next
  case (Cons c row)
  define q where "q = real_of_int c / s"
  have q0: "0 \<le> q"
    using Cons.prems assms(2) by (simp add: q_def)
  have "\<bar>rnd q - q\<bar> \<le> eps * \<bar>q\<bar>"
    using assms(1) by blast
  then have head: "\<bar>rnd q - q\<bar> \<le> eps * q"
    using q0 by (simp only: abs_of_nonneg)
  have rest: "\<bar>sum_list (map (\<lambda>c. rnd (real_of_int c / s)) row) - sum_list (map (\<lambda>c. real_of_int c / s) row)\<bar>
         \<le> eps * sum_list (map (\<lambda>c. real_of_int c / s) row)"
    using Cons by simp
  have "\<bar>(rnd q + sum_list (map (\<lambda>c. rnd (real_of_int c / s)) row)) - (q + sum_list (map (\<lambda>c. real_of_int c / s) row))\<bar>
         \<le> eps * q + eps * sum_list (map (\<lambda>c. real_of_int c / s) row)"
    using head rest by linarith
  then show ?case
    by (simp only: list.map sum_list.Cons q_def distrib_left)
qed

lemma sum_quotients:
  "sum_list (map (\<lambda>c. real_of_int c / s) row) = real_of_int (sum_list row) / s"
  by (induction row) (simp_all add: add_divide_distrib)

lemma zero_sum_row:
  "list_all (\<lambda>c. 0 \<le> c) row \<Longrightarrow> sum_list row = (0::int) \<Longrightarrow> list_all (\<lambda>c. c = 0) row"
proof (induction row)
  case Nil
  then show ?case by simp
next
  case (Cons c row)
  then have "0 \<le> sum_list row" by (auto simp: list_all_iff intro: sum_list_nonneg)
  with Cons show ?case by simp
qed

lemma normalize_row_nonzero:
  fixes rnd :: "real \<Rightarrow> real"
  assumes "\<forall>x. \<bar>rnd x - x\<bar> \<le> eps * \<bar>x\<bar>" and "list_all (\<lambda>c. 0 \<le> c) row" and "sum_list row \<noteq> 0"
  shows "map (\<lambda>c. true_divide rnd c (sum_list row)) row =
           map Finite (map (\<lambda>c. rnd (real_of_int c / real_of_int (sum_list row))) row)
       \<and> \<bar>sum_list (map (\<lambda>c. rnd (real_of_int c / real_of_int (sum_list row))) row) - 1\<bar> \<le> eps"
proof -
  have "0 \<le> sum_list row" using assms(2) by (auto simp: list_all_iff intro: sum_list_nonneg)
  with assms(3) have pos: "0 < real_of_int (sum_list row)" by simp
  have one: "sum_list (map (\<lambda>c. real_of_int c / real_of_int (sum_list row)) row) = 1"
    using pos by (simp add: sum_quotients)
  show ?thesis
    using rounded_sum_bound[OF assms(1) pos assms(2)] assms(3)
    by (simp add: one true_divide_def)
qed

lemma normalize_row_zero:
  assumes "list_all (\<lambda>c. 0 \<le> c) row" and "sum_list row = 0"
  shows "map (\<lambda>c. true_divide rnd c (sum_list row)) row = replicate (length row) NaN"
proof -
  have "list_all (\<lambda>c. c = 0) row" using assms by (rule zero_sum_row)
  then show ?thesis
    using assms(2) by (auto simp: true_divide_def list_all_iff map_replicate_const[symmetric])
qed

text \<open>
  Claim C4 (row-stochastic normalisation). The normalised matrix is the accumulated
  matrix with every row divided by the sum of that row. When the division rounds with
  relative error at most \<open>eps\<close>, a row with a sum other than 0 consists of three finite
  values whose sum is within \<open>eps\<close> of 1, and a row with the sum 0 is NaN in each of its
  three cells.
\<close>

theorem normalizedMatrix_row_stochastic:
  fixes rnd :: "real \<Rightarrow> real"
  assumes "\<forall>x. \<bar>rnd x - x\<bar> \<le> eps * \<bar>x\<bar>"
    and "computeConfusionMatrix rnd trial iterations = Inr (matrix, normalizedMatrix)"
    and "i < 3"
  shows "length matrix = 3 \<and> length normalizedMatrix = 3 \<and>
         normalizedMatrix ! i = map (\<lambda>c. true_divide rnd c (sum_list (matrix ! i))) (matrix ! i) \<and>
         (sum_list (matrix ! i) \<noteq> 0 \<longrightarrow>
            (\<exists>vs. normalizedMatrix ! i = map Finite vs \<and> length vs = 3 \<and> \<bar>sum_list vs - 1\<bar> \<le> eps)) \<and>
         (sum_list (matrix ! i) = 0 \<longrightarrow> normalizedMatrix ! i = [NaN, NaN, NaN])"
proof -
  obtain count where run: "computeConfusionMatrix_loop trial iterations 0 None = Inr (count, Some matrix)"
    and nm: "normalizedMatrix = normalize_rows rnd matrix"
    using assms(2) by (auto simp: computeConfusionMatrix_def split: sum.splits option.splits)
  have ws: "well_shaped matrix" using run by (rule loop_well_shaped)
  then have len: "length matrix = 3" by (simp add: well_shaped_def)
  with assms(3) have mem: "matrix ! i \<in> set matrix" by simp
  with ws have row_len: "length (matrix ! i) = 3" and row_nn: "list_all (\<lambda>c. 0 \<le> c) (matrix ! i)"
    by (auto simp: well_shaped_def list_all_iff)
  have row: "normalizedMatrix ! i = map (\<lambda>c. true_divide rnd c (sum_list (matrix ! i))) (matrix ! i)"
    using len assms(3) by (simp add: nm normalize_rows_def)
  have nz: "\<exists>vs. normalizedMatrix ! i = map Finite vs \<and> length vs = 3 \<and> \<bar>sum_list vs - 1\<bar> \<le> eps"
    if "sum_list (matrix ! i) \<noteq> 0"
    using normalize_row_nonzero[OF assms(1) row_nn that] row row_len
    by (intro exI[of _ "map (\<lambda>c. rnd (real_of_int c / real_of_int (sum_list (matrix ! i)))) (matrix ! i)"]) simp
  have z: "normalizedMatrix ! i = [NaN, NaN, NaN]" if "sum_list (matrix ! i) = 0"
    using normalize_row_zero[OF row_nn that, of rnd] row row_len by (simp add: numeral_3_eq_3)
  show ?thesis using len nm row nz z by (simp add: normalize_rows_def)
qed

theorem normalizedMatrix_row_stochastic_witness:
  "(\<forall>x::real. \<bar>x * (1 + 1 / 1024) - x\<bar> \<le> (1 / 1024) * \<bar>x\<bar>) \<and>
   computeConfusionMatrix (\<lambda>x. x * (1 + 1 / 1024)) (\<lambda>k. [(UPREG, UPREG), (UPREG, NEUTRAL), (NEUTRAL, DOWNREG)]) 1 =
     Inr ([[0, 0, 0], [1, 0, 0], [0, 1, 1]],
          [[NaN, NaN, NaN], [Finite (1025 / 1024), Finite 0, Finite 0],
           [Finite 0, Finite (1025 / 2048), Finite (1025 / 2048)]]) \<and>
   (\<exists>vs. [Finite 0, Finite (1025 / 2048), Finite (1025 / 2048)] = map Finite vs \<and> length vs = 3 \<and>
         \<bar>sum_list vs - 1\<bar> \<le> 1 / 1024)"
proof -
  have r: "\<forall>x::real. \<bar>x * (1 + 1 / 1024) - x\<bar> \<le> (1 / 1024) * \<bar>x\<bar>"
    by (simp add: algebra_simps)
  have c: "computeConfusionMatrix (\<lambda>x. x * (1 + 1 / 1024)) (\<lambda>k. [(UPREG, UPREG), (UPREG, NEUTRAL), (NEUTRAL, DOWNREG)]) 1 =
     Inr ([[0, 0, 0], [1, 0, 0], [0, 1, 1]],
          [[NaN, NaN, NaN], [Finite (1025 / 1024), Finite 0, Finite 0],
           [Finite 0, Finite (1025 / 2048), Finite (1025 / 2048)]])"
    by (simp add: computeConfusionMatrix_def loop_run confusion_matrix_def class_labels_def
          normalize_rows_def true_divide_def)
  have "\<exists>vs. [Finite 0, Finite (1025 / 2048), Finite (1025 / 2048)] = map Finite vs \<and> length vs = 3 \<and>
         \<bar>sum_list vs - 1\<bar> \<le> 1 / 1024"
    using normalizedMatrix_row_stochastic[OF r c, of 2] by (simp add: true_divide_def)
  with r c show ?thesis by blast
qed

section \<open>Summarize and the floor of the p-value\<close>

text \<open>
  Claim C5 (a p-value below \<open>1E-50\<close> is reported as exactly \<open>1E-50\<close>, and any other
  p-value is reported unchanged). Lines 119 and 120 hold the comparison and the
  assignment, but no call reaches them: line 116 asks for the standard deviation of the
  Series \<open>Summary['Accuracy']\<close> along axis 1, which raises ValueError. For every input
  \<open>Summarize\<close> ends with that exception and reports no p-value at all.
\<close>

theorem Summarize_raises_before_floor:
  "Summarize st same_object trial filename target iterations = Inl ValueError"
  by (simp add: Summarize_def Series_reduce_def Let_def split: prod.splits)

section \<open>PearsonCorrelation and the test for NaN\<close>

text \<open>
  The test of line 159 is applied to an array of two truth values, so it raises for
  every column, whatever \<open>pearsonr\<close> returned.
\<close>

lemma correlate_column_raises:
  "correlate_column median pearsonr df col corr = Inl ValueError"
  by (simp add: correlate_column_def np_isnan_def array_ne_def Let_def)

lemma columns_loop_eq:
  "columns_loop median pearsonr df cols corr = (if cols = [] then Inr corr else Inl ValueError)"
  by (cases cols) (simp_all add: correlate_column_raises)

lemma frames_loop_eq:
  "frames_loop median pearsonr pop target dfs d =
     (if list_ex (\<lambda>x. df_columns (pop x target) \<noteq> []) dfs then Inl ValueError
      else if dfs = [] then Inr d
      else Inr (d(0 \<mapsto> Map.empty)))"
  by (induction dfs arbitrary: d) (auto simp: columns_loop_eq Let_def)

text \<open>
  Claim C6 (a column whose correlation is NaN is reported with the correlation 0.0,
  never NaN). \<open>PearsonCorrelation\<close> returns a dictionary only when no frame has a
  column, and that dictionary is empty or holds an empty \<open>corr\<close> under the key 0. As
  soon as a frame has a column, the call ends with ValueError: for one frame with the
  single column \<open>kcat\<close>, whose medians are 2 in all three classes and for which
  \<open>pearsonr\<close> gives NaN, nothing is reported.
\<close>

theorem PearsonCorrelation_raises_on_columns:
  "PearsonCorrelation median pearsonr pop diffExpDFs target =
     (if list_ex (\<lambda>x. df_columns (pop x target) \<noteq> []) diffExpDFs then Inl ValueError
      else if diffExpDFs = [] then Inr Map.empty
      else Inr [0 \<mapsto> Map.empty]) \<and>
   PearsonCorrelation (\<lambda>col. col) (\<lambda>med g. if med = [2, 2, 2::real] then (NaN, NaN) else (Finite 1, Finite 0))
     (\<lambda>df t. df) [\<lparr>df_columns = [''kcat''], df_col = (\<lambda>c. [2, 2, 2])\<rparr>] ''TCGA'' =
     Inl ValueError"
  by (simp add: PearsonCorrelation_def frames_loop_eq)

section \<open>The grid of the ablation sweep\<close>

text \<open>
  The inner loop starts at 5 trees and adds 1500 while the count is at most 500: one
  fit. The outer loop starts at \<open>ncols - 10\<close> features and adds 20 while the count is
  below \<open>ncols - 1\<close>: one pass, which appends one row when \<open>canc\<close> and \<open>targ\<close> are
  bound and raises NameError when they are not.
\<close>

lemma trees_loop_once:
  "trees_loop fit feat 5 st = st\<lparr>rfc := Some (fit 5 feat), fits := fits st @ [(5, feat)]\<rparr>"
  by (subst trees_loop.simps, simp, subst trees_loop.simps, simp)

lemma ablation_sweep_bound:
  "ablation_sweep fit score (Some canc) (Some targ) held ncols st =
     Inr (st\<lparr>rfc := Some (fit 5 (ncols - 10)), fits := fits st @ [(5, ncols - 10)],
             output := output st @ [(canc, targ, held, score (fit 5 (ncols - 10)))]\<rparr>)"
  unfolding ablation_sweep_def Let_def
  by (subst feat_loop.simps, simp add: trees_loop_once Let_def, subst feat_loop.simps, simp)

lemma ablation_sweep_unbound:
  "ablation_sweep fit score None targ held ncols st = Inl NameError"
  unfolding ablation_sweep_def Let_def
  by (subst feat_loop.simps, simp add: trees_loop_once Let_def)

lemma lofo_groups_raise:
  "lofo_groups fit score (g # dfs) st = Inl NameError"
  by (cases g) (simp add: lofo_group_def ablation_sweep_unbound)

lemma loco_group_once:
  "partitions train_test_split fit_sample df2 cell = Inr (data, orig_data) \<Longrightarrow>
   loco_group train_test_split fit_sample fit score ncols canc targ df2 cell st =
     Inr (st\<lparr>rfc := Some (fit data 5 (ncols - 10)), fits := fits st @ [(5, ncols - 10)],
             output := output st @ [(canc, targ, cell, score orig_data (fit data 5 (ncols - 10)))]\<rparr>)"
  by (simp add: loco_group_def ablation_sweep_bound)

text \<open>
  Claim C7 (in both ablation modes the sweep fits one forest per feature count and
  records the accuracy of the last grid point). \<open>leave_one_feat_out\<close> records nothing:
  on a frame of fewer than 135 columns line 236 raises IndexError, and on any other
  frame the first pass of its loop raises NameError at line 270, where \<open>canc\<close> and
  \<open>targ\<close> are unbound. \<open>leave_one_cell_out\<close>, which has both names as parameters,
  returns one row per cell line, here for three cell lines, 30 feature columns, a split
  that puts the first remaining row into the training partition and an oversampler
  that changes nothing: each accuracy is the score of the one forest fitted with 5 trees
  and 20 features.
\<close>

theorem leave_one_feat_out_records_nothing:
  "leave_one_feat_out prepare fit score filename target exclude =
     (if length (prepare filename target exclude) \<le> 134 then Inl IndexError else Inl NameError) \<and>
   leave_one_cell_out (\<lambda>xs x. x) (\<lambda>rows. (take 1 rows, drop 1 rows)) (\<lambda>rows. rows)
     (\<lambda>data trees feat. (map Cell_Line data, trees, feat))
     (\<lambda>orig_data m. (map Cell_Line orig_data, m)) 30
     [\<lparr>Cell_Line = ''K-562'', features = 2::int, target_class = DOWNREG\<rparr>,
      \<lparr>Cell_Line = ''A549'', features = 1, target_class = UPREG\<rparr>,
      \<lparr>Cell_Line = ''MCF7'', features = 3, target_class = UPREG\<rparr>] ''breast'' ''TCGA'' =
     Inr [(''breast'', ''TCGA'', ''K-562'', ([''MCF7''], ([''A549''], 5, 20))),
          (''breast'', ''TCGA'', ''A549'', ([''MCF7''], ([''K-562''], 5, 20))),
          (''breast'', ''TCGA'', ''MCF7'', ([''A549''], ([''K-562''], 5, 20)))]"
proof -
  have lofo: "leave_one_feat_out prepare fit score filename target exclude =
     (if length (prepare filename target exclude) \<le> 134 then Inl IndexError else Inl NameError)"
    by (simp add: leave_one_feat_out_def feature_groups_def Let_def lofo_groups_raise
          del: lofo_groups.simps)
  have loco: "leave_one_cell_out (\<lambda>xs x. x) (\<lambda>rows. (take 1 rows, drop 1 rows)) (\<lambda>rows. rows)
     (\<lambda>data trees feat. (map Cell_Line data, trees, feat))
     (\<lambda>orig_data m. (map Cell_Line orig_data, m)) 30
     [\<lparr>Cell_Line = ''K-562'', features = 2::int, target_class = DOWNREG\<rparr>,
      \<lparr>Cell_Line = ''A549'', features = 1, target_class = UPREG\<rparr>,
      \<lparr>Cell_Line = ''MCF7'', features = 3, target_class = UPREG\<rparr>] ''breast'' ''TCGA'' =
     Inr [(''breast'', ''TCGA'', ''K-562'', ([''MCF7''], ([''A549''], 5, 20))),
          (''breast'', ''TCGA'', ''A549'', ([''MCF7''], ([''K-562''], 5, 20))),
          (''breast'', ''TCGA'', ''MCF7'', ([''A549''], ([''K-562''], 5, 20)))]"
    by (simp add: leave_one_cell_out_def unique_def loco_group_def ablation_sweep_bound
          partitions_def new_df_def str_contains_def re_compile_def regex_special_def
          sublist_Cons_right)
  from lofo loco show ?thesis by (rule conjI)
qed

section \<open>The rows excluded by leave_one_cell_out\<close>

lemma re_compile_literal: "literal_pattern pat \<Longrightarrow> re_compile pat = Inr pat"
proof -
  assume l: "literal_pattern pat"
  then have ns: "\<not> list_ex (\<lambda>c. c \<in> set regex_special) pat"
    and np: "\<forall>c \<in> set pat. c \<noteq> CHR ''('' \<and> c \<noteq> CHR '')''"
    by (auto simp: literal_pattern_def list_ex_iff)
  have "balanced d pat = (d = 0)" if "\<forall>c \<in> set pat. c \<noteq> CHR ''('' \<and> c \<noteq> CHR '')''" for d
    using that by (induction pat arbitrary: d) auto
  with np have "balanced 0 pat" by simp
  moreover have "filter (\<lambda>c. c \<noteq> CHR ''('' \<and> c \<noteq> CHR '')'') pat = pat"
    using np by (simp add: filter_id_conv)
  ultimately show ?thesis using ns by (simp add: re_compile_def)
qed

lemma new_df_literal:
  "literal_pattern cell \<Longrightarrow> new_df df2 cell = Inr (filter (\<lambda>r. \<not> sublist cell (Cell_Line r)) df2)"
proof -
  assume "literal_pattern cell"
  then have c: "re_compile cell = Inr cell" by (rule re_compile_literal)
  have "map fst (filter (\<lambda>(r, b). \<not> b) (zip df2 (map (\<lambda>s. sublist cell s) (map Cell_Line df2)))) =
        filter (\<lambda>r. \<not> sublist cell (Cell_Line r)) df2"
    by (induction df2) simp_all
  then show ?thesis by (simp add: new_df_def str_contains_def c)
qed

text \<open>
  Claim C8 (no row of the held-out cell line is in the training or the evaluation
  partition). For the cell line \<open>HL-60(TB)\<close> the parentheses of the pattern are a group,
  so the pattern is looked for as the text \<open>HL-60TB\<close> and is found in no row: the two
  rows of \<open>HL-60(TB)\<close> stay, one in each partition.
\<close>

theorem held_out_rows_kept:
  "partitions (\<lambda>rows. (take 2 rows, drop 2 rows)) (\<lambda>rows. rows)
     [\<lparr>Cell_Line = ''HL-60(TB)'', features = 1::int, target_class = UPREG\<rparr>,
      \<lparr>Cell_Line = ''K-562'', features = 2, target_class = DOWNREG\<rparr>,
      \<lparr>Cell_Line = ''HL-60(TB)'', features = 3, target_class = NEUTRAL\<rparr>] ''HL-60(TB)'' =
   Inr ([\<lparr>Cell_Line = ''HL-60(TB)'', features = 1, target_class = UPREG\<rparr>,
         \<lparr>Cell_Line = ''K-562'', features = 2, target_class = DOWNREG\<rparr>],
        [\<lparr>Cell_Line = ''HL-60(TB)'', features = 3, target_class = NEUTRAL\<rparr>])"
  by (simp add: partitions_def new_df_def str_contains_def re_compile_def regex_special_def
        sublist_Cons_right)

text \<open>
  Claim C10 (exclusion is by substring containment: every row whose cell line contains
  the name of the held-out cell line as a substring is removed from the working data).
  For the held-out cell line \<open>HL-60(TB)\<close> the row of \<open>HL-60(TB)\<close>, which contains that
  name, stays in the working data. The defect is the one of claim C8: line 307 searches
  for the name as a regular expression.
\<close>

theorem substring_row_not_removed:
  "sublist ''HL-60(TB)'' (Cell_Line \<lparr>Cell_Line = ''HL-60(TB)'', features = 1::int, target_class = UPREG\<rparr>) \<and>
   new_df [\<lparr>Cell_Line = ''HL-60(TB)'', features = 1::int, target_class = UPREG\<rparr>,
           \<lparr>Cell_Line = ''K-562'', features = 2, target_class = DOWNREG\<rparr>] ''HL-60(TB)'' =
   Inr [\<lparr>Cell_Line = ''HL-60(TB)'', features = 1, target_class = UPREG\<rparr>,
        \<lparr>Cell_Line = ''K-562'', features = 2, target_class = DOWNREG\<rparr>]"
  by (simp add: new_df_def str_contains_def re_compile_def regex_special_def
        sublist_Cons_right)

text \<open>
  For a held-out cell line whose name has no metacharacter of regular expressions, the
  working data are the rows whose cell line does not contain that name as a substring;
  with a split and an oversampler that only select among the rows they are given, no
  row whose cell line contains the name is in the training or in the evaluation
  partition. So the rows of another cell line whose name contains the held-out name
  are excluded too, as those of \<open>SK-MEL-28\<close> are for \<open>SK-MEL-2\<close>.
\<close>

lemma literal_cell_excludes_by_substring:
  assumes "literal_pattern cell"
    and "\<forall>rows. set (fst (train_test_split rows)) \<union> set (snd (train_test_split rows)) \<subseteq> set rows"
    and "\<forall>rows. set (fit_sample rows) \<subseteq> set rows"
  shows "new_df df2 cell = Inr (filter (\<lambda>r. \<not> sublist cell (Cell_Line r)) df2) \<and>
         (\<exists>data orig_data.
            partitions train_test_split fit_sample df2 cell = Inr (data, orig_data) \<and>
            (\<forall>r \<in> set data \<union> set orig_data. r \<in> set df2 \<and> \<not> sublist cell (Cell_Line r)))"
proof -
  let ?rows = "filter (\<lambda>r. \<not> sublist cell (Cell_Line r)) df2"
  have n: "new_df df2 cell = Inr ?rows" using assms(1) by (rule new_df_literal)
  obtain new_data orig_data where s: "train_test_split ?rows = (new_data, orig_data)"
    by fastforce
  have p: "partitions train_test_split fit_sample df2 cell = Inr (fit_sample new_data, orig_data)"
    by (simp add: partitions_def n s)
  have "set new_data \<union> set orig_data \<subseteq> set ?rows"
    using assms(2)[rule_format, of ?rows] by (simp add: s)
  moreover have "set (fit_sample new_data) \<subseteq> set new_data"
    using assms(3) by blast
  ultimately have "\<forall>r \<in> set (fit_sample new_data) \<union> set orig_data. r \<in> set df2 \<and> \<not> sublist cell (Cell_Line r)"
    by auto
  with n p show ?thesis by blast
qed

lemma similar_name_excluded:
  "literal_pattern ''SK-MEL-2'' \<and>
   (\<forall>rows::(int, label) sample list.
      set (fst (take 1 rows, drop 1 rows)) \<union> set (snd (take 1 rows, drop 1 rows)) \<subseteq> set rows) \<and>
   (\<forall>rows::(int, label) sample list. set (rows @ rows) \<subseteq> set rows) \<and>
   sublist ''SK-MEL-2'' ''SK-MEL-28'' \<and>
   new_df [\<lparr>Cell_Line = ''SK-MEL-2'', features = 1::int, target_class = UPREG\<rparr>,
           \<lparr>Cell_Line = ''K-562'', features = 2, target_class = DOWNREG\<rparr>,
           \<lparr>Cell_Line = ''SK-MEL-28'', features = 3, target_class = NEUTRAL\<rparr>,
           \<lparr>Cell_Line = ''A549'', features = 4, target_class = NEUTRAL\<rparr>] ''SK-MEL-2'' =
     Inr [\<lparr>Cell_Line = ''K-562'', features = 2, target_class = DOWNREG\<rparr>,
          \<lparr>Cell_Line = ''A549'', features = 4, target_class = NEUTRAL\<rparr>] \<and>
   partitions (\<lambda>rows. (take 1 rows, drop 1 rows)) (\<lambda>rows. rows @ rows)
          [\<lparr>Cell_Line = ''SK-MEL-2'', features = 1::int, target_class = UPREG\<rparr>,
           \<lparr>Cell_Line = ''K-562'', features = 2, target_class = DOWNREG\<rparr>,
           \<lparr>Cell_Line = ''SK-MEL-28'', features = 3, target_class = NEUTRAL\<rparr>,
           \<lparr>Cell_Line = ''A549'', features = 4, target_class = NEUTRAL\<rparr>] ''SK-MEL-2'' =
     Inr ([\<lparr>Cell_Line = ''K-562'', features = 2, target_class = DOWNREG\<rparr>,
           \<lparr>Cell_Line = ''K-562'', features = 2, target_class = DOWNREG\<rparr>],
          [\<lparr>Cell_Line = ''A549'', features = 4, target_class = NEUTRAL\<rparr>])"
proof -
  let ?df2 = "[\<lparr>Cell_Line = ''SK-MEL-2'', features = 1::int, target_class = UPREG\<rparr>,
           \<lparr>Cell_Line = ''K-562'', features = 2, target_class = DOWNREG\<rparr>,
           \<lparr>Cell_Line = ''SK-MEL-28'', features = 3, target_class = NEUTRAL\<rparr>,
           \<lparr>Cell_Line = ''A549'', features = 4, target_class = NEUTRAL\<rparr>]"
  have l: "literal_pattern ''SK-MEL-2''"
    by (simp add: literal_pattern_def regex_special_def)
  have s: "\<forall>rows::(int, label) sample list.
      set (fst (take 1 rows, drop 1 rows)) \<union> set (snd (take 1 rows, drop 1 rows)) \<subseteq> set rows"
    by (auto dest: in_set_takeD in_set_dropD)
  have r: "\<forall>rows::(int, label) sample list. set (rows @ rows) \<subseteq> set rows"
    by simp
  have sub: "sublist ''SK-MEL-2'' ''SK-MEL-28''"
    by (simp add: sublist_Cons_right)
  note t = literal_cell_excludes_by_substring[OF l s r, of ?df2]
  have n: "new_df ?df2 ''SK-MEL-2'' =
     Inr [\<lparr>Cell_Line = ''K-562'', features = 2, target_class = DOWNREG\<rparr>,
          \<lparr>Cell_Line = ''A549'', features = 4, target_class = NEUTRAL\<rparr>]"
    using t by (simp add: sublist_Cons_right)
  have p: "partitions (\<lambda>rows. (take 1 rows, drop 1 rows)) (\<lambda>rows. rows @ rows) ?df2 ''SK-MEL-2'' =
     Inr ([\<lparr>Cell_Line = ''K-562'', features = 2, target_class = DOWNREG\<rparr>,
           \<lparr>Cell_Line = ''K-562'', features = 2, target_class = DOWNREG\<rparr>],
          [\<lparr>Cell_Line = ''A549'', features = 4, target_class = NEUTRAL\<rparr>])"
    by (simp add: partitions_def n)
  show ?thesis using l s r sub n p by blast
qed

end
